theory Spec2Isabelle
  imports Complex_Main
begin

section \<open>The JNI entry point of the orbit propagator (orbit\_jni.cpp)\<close>

text \<open>
  The repository's one source file is the function
  \<^verbatim>\<open>Java_com_orbitYu_orbit_OrbitPropagator_propagateFromTle\<close>: it parses a two-line
  element set, runs the SGP4 propagator at equally spaced times and returns a flat array
  of nine numbers per time.

  Conventions of the embedding.
  \<^item> The two arguments of type \<^verbatim>\<open>double\<close> are finite and are given by their values in
    \<^typ>\<open>real\<close>. Step 3 reads an integer off a product and a quotient of doubles, so
    there the arithmetic is that of IEEE 754 binary64: the exact result rounded to the
    nearest double, ties to even, with subnormal numbers, overflow to infinity and the
    division by zero. In the loop the expressions are kept exact: each value differs
    from the one in the program by the rounding of the same expression.
  \<^item> An \<^verbatim>\<open>int\<close> is an \<^typ>\<open>int\<close> together with the range \<open>INT_MIN .. INT_MAX\<close>. The
    conversion of a \<^verbatim>\<open>double\<close> that is out of this range is what the conversion
    instruction of the target gives. Where a signed addition or multiplication overflows,
    what the program does depends on the compiler, and the outcome of the call is
    \<open>Undefined\<close>.
  \<^item> A pending Java exception with the \<^verbatim>\<open>nullptr\<close> result is the outcome \<open>Thrown\<close>. A C++
    exception that leaves the function, which has no handler, is the outcome \<open>Uncaught\<close>.
  \<^item> The functions of the SGP4 library (\<^verbatim>\<open>sgp4io.h\<close>, \<^verbatim>\<open>sgp4coord.h\<close>) are not part of
    the sources: they are parameters, collected in the record \<open>sgp4_lib\<close>. The satellite
    record is passed to \<^verbatim>\<open>sgp4\<close> as an lvalue, so the parameter returns the record as the
    call leaves it.
  \<^item> The vector allocates once, in \<^verbatim>\<open>reserve\<close>: the loop pushes nine values for each of
    \<open>totalPoints\<close> points, which is the reserved capacity, so no \<^verbatim>\<open>push_back\<close> allocates.
    The short string of the failure message is taken to be built.
  \<^item> Next to its outcome the model returns the list of elapsed times passed to
    \<^verbatim>\<open>sgp4\<close>, in call order: the propagation steps that were executed.
\<close>

subsection \<open>Data\<close>

type_synonym jdouble = real

type_synonym vec3 = "real \<times> real \<times> real"

datatype gravconsttype = wgs72old | wgs72 | wgs84

text \<open>
  The two fields of \<^verbatim>\<open>elsetrec\<close> that the function reads. The other fields of the
  structure are the extension of the record.
\<close>

record elsetrec =
  error :: int
  jdsatepoch :: real

record 'e sgp4_lib =
  pi_c :: real
  twoline2rv :: "string \<Rightarrow> string \<Rightarrow> char \<Rightarrow> char \<Rightarrow> char \<Rightarrow> gravconsttype
                  \<Rightarrow> 'e elsetrec_scheme"
  sgp4 :: "gravconsttype \<Rightarrow> 'e elsetrec_scheme \<Rightarrow> real
            \<Rightarrow> bool \<times> 'e elsetrec_scheme \<times> vec3 \<times> vec3"
  teme2ecef :: "vec3 \<Rightarrow> vec3 \<Rightarrow> real \<Rightarrow> vec3 \<times> vec3"
  ijk2ll :: "vec3 \<Rightarrow> vec3"

text \<open>
  The instruction set the library is compiled for. It decides what the conversion of an
  out-of-range \<^verbatim>\<open>double\<close> to \<^verbatim>\<open>int\<close> gives.
\<close>

datatype instruction_set = x86 | arm

text \<open>
  What the call meets outside itself: the target, whether \<^verbatim>\<open>reserve\<close> obtains the memory
  for a given number of doubles (\<open>False\<close>: it throws \<^verbatim>\<open>std::bad_alloc\<close>), and whether
  \<^verbatim>\<open>NewDoubleArray\<close> of a given size returns an array (\<open>False\<close>: \<^verbatim>\<open>nullptr\<close>).
\<close>

record host =
  target :: instruction_set
  reserve :: "int \<Rightarrow> bool"
  NewDoubleArray :: "int \<Rightarrow> bool"

datatype jthrowable =
    IllegalArgumentException string
  | RuntimeException string
  | OutOfMemoryError string

datatype outcome =
    Returned "real list"
  | Thrown jthrowable
  | Uncaught string
  | Undefined

subsection \<open>Doubles\<close>

text \<open>A value of type \<^verbatim>\<open>double\<close>: a finite number, an infinity or not a number.\<close>

datatype fp = Finite real | PosInf | NegInf | NaN

text \<open>
  Scaling a positive number into the interval from 1 to 2 by halving or doubling, at most
  \<open>k\<close> times; the second component is the power of two taken out. Doubling stops after
  1022 steps, where the subnormal numbers begin.
\<close>

fun norm_up :: "nat \<Rightarrow> real \<Rightarrow> real \<Rightarrow> real \<times> real" where
  "norm_up k m s = (if k = 0 \<or> m < 2 then (m, s) else norm_up (k - 1) (m / 2) (s * 2))"

fun norm_down :: "nat \<Rightarrow> real \<Rightarrow> real \<Rightarrow> real \<times> real" where
  "norm_down k m s = (if k = 0 \<or> 1 \<le> m then (m, s) else norm_down (k - 1) (m * 2) (s / 2))"

declare norm_up.simps [simp del]

declare norm_down.simps [simp del]

text \<open>Rounding to the nearest integer, ties to the even one.\<close>

definition round_even :: "real \<Rightarrow> int" where
  "round_even q =
     (let n = \<lfloor>q\<rfloor>; f = q - of_int n
      in if f < 1 / 2 then n else if 1 / 2 < f then n + 1 else if even n then n else n + 1)"

text \<open>
  The magnitude of the double nearest to a positive number: 53 significant bits, ties to
  even.
\<close>

definition rounded_magnitude :: "real \<Rightarrow> real" where
  "rounded_magnitude a =
     (case (if 1 \<le> a then norm_up 1024 a 1 else norm_down 1022 a 1) of
        (m, s) \<Rightarrow> of_int (round_even (m * 2 ^ 52)) / 2 ^ 52 * s)"

text \<open>
  The double nearest to a real number; a result of magnitude \<open>2 ^ 1024\<close> or more is an
  infinity.
\<close>

definition binary64 :: "real \<Rightarrow> fp" where
  "binary64 x =
     (if x = 0 then Finite 0
      else
        (let r = rounded_magnitude \<bar>x\<bar> in
         if 2 ^ 1024 \<le> r then (if 0 < x then PosInf else NegInf)
         else Finite (if 0 < x then r else - r)))"

text \<open>The product of two finite doubles.\<close>

definition double_mul :: "real \<Rightarrow> real \<Rightarrow> fp" where
  "double_mul a b = binary64 (a * b)"

text \<open>
  The quotient of a double by a finite double. A zero divisor is \<open>+0.0\<close>: it gives an
  infinity of the sign of the dividend, and not a number for a zero dividend.
\<close>

definition double_div :: "fp \<Rightarrow> real \<Rightarrow> fp" where
  "double_div x b =
     (case x of
        Finite a \<Rightarrow>
          if b = 0 then (if a = 0 then NaN else if 0 < a then PosInf else NegInf)
          else binary64 (a / b)
      | PosInf \<Rightarrow> (if b < 0 then NegInf else PosInf)
      | NegInf \<Rightarrow> (if b < 0 then PosInf else NegInf)
      | NaN \<Rightarrow> NaN)"

text \<open>\<^verbatim>\<open>std::floor\<close>: the floor of a double is a double.\<close>

definition std_floor :: "fp \<Rightarrow> fp" where
  "std_floor x = (case x of Finite a \<Rightarrow> Finite (of_int \<lfloor>a\<rfloor>) | _ \<Rightarrow> x)"

subsection \<open>Machine integers and \<^verbatim>\<open>std::to_string\<close>\<close>

definition INT_MAX :: int where
  "INT_MAX = 2147483647"

definition INT_MIN :: int where
  "INT_MIN = - 2147483648"

text \<open>
  What the conversion instruction gives for a value that is not an \<^verbatim>\<open>int\<close>:
  \<^verbatim>\<open>cvttsd2si\<close> of x86 answers \<open>INT_MIN\<close> in every case, the conversions of ARM saturate.
  The flag says whether the value is positive.
\<close>

definition out_of_range :: "instruction_set \<Rightarrow> bool \<Rightarrow> int" where
  "out_of_range tgt positive =
     (case tgt of x86 \<Rightarrow> INT_MIN | arm \<Rightarrow> (if positive then INT_MAX else INT_MIN))"

text \<open>
  \<^verbatim>\<open>static_cast<int>\<close> of a \<^verbatim>\<open>double\<close> truncates towards zero. C++ leaves the result
  undefined when the truncated value is not an \<^verbatim>\<open>int\<close>; the compiled conversion is the
  instruction of the target. Not a number converts to \<open>INT_MIN\<close> on x86 and to 0 on ARM.
\<close>

definition double_to_int :: "instruction_set \<Rightarrow> fp \<Rightarrow> int" where
  "double_to_int tgt x =
     (case x of
        Finite a \<Rightarrow>
          (let t = (if 0 \<le> a then \<lfloor>a\<rfloor> else \<lceil>a\<rceil>)
           in if INT_MIN \<le> t \<and> t \<le> INT_MAX then t else out_of_range tgt (0 < a))
      | PosInf \<Rightarrow> out_of_range tgt True
      | NegInf \<Rightarrow> out_of_range tgt False
      | NaN \<Rightarrow> (case tgt of x86 \<Rightarrow> INT_MIN | arm \<Rightarrow> 0))"

definition digit_char :: "nat \<Rightarrow> char" where
  "digit_char d = char_of (48 + d)"

fun digits :: "nat \<Rightarrow> string" where
  "digits n = (if n < 10 then [digit_char n] else digits (n div 10) @ [digit_char (n mod 10)])"

declare digits.simps [simp del]

definition to_string :: "int \<Rightarrow> string" where
  "to_string i = (if i < 0 then CHR ''-'' # digits (nat (- i)) else digits (nat i))"

text \<open>Reading a decimal numeral back, to recover the step from the message.\<close>

definition digit_val :: "char \<Rightarrow> nat" where
  "digit_val c = of_char c - 48"

definition read_nat :: "string \<Rightarrow> nat" where
  "read_nat cs = foldl (\<lambda>a c. 10 * a + digit_val c) 0 cs"

subsection \<open>The function, step by step\<close>

text \<open>
  Step 3: the number of points. \<open>steps + 1\<close> overflows when \<open>steps\<close> is \<open>INT_MAX\<close>; the
  result is then \<open>None\<close>.
\<close>

definition time_steps :: "instruction_set \<Rightarrow> jdouble \<Rightarrow> jdouble \<Rightarrow> int option" where
  "time_steps tgt durationHours stepMinutes =
     (let totalMinutes = double_mul durationHours 60;
          steps0 = double_to_int tgt (std_floor (double_div totalMinutes stepMinutes));
          steps = (if steps0 < 0 then 0 else steps0)
      in if steps + 1 > INT_MAX then None else Some (steps + 1))"

text \<open>Lines 91 to 102: the Earth-fixed frame, then latitude, longitude and altitude.\<close>

definition geodetic_fields :: "'e sgp4_lib \<Rightarrow> real \<Rightarrow> vec3 \<Rightarrow> vec3 \<Rightarrow> real \<Rightarrow> real list" where
  "geodetic_fields lib rad2deg r v jdut1 =
     (case teme2ecef lib r v jdut1 of
        (recef, vecef) \<Rightarrow>
          (case ijk2ll lib recef of
             (lat, lon, alt) \<Rightarrow> [lat * rad2deg, lon * rad2deg, alt]))"

text \<open>
  The body of the loop for one elapsed time: \<open>None\<close> when \<^verbatim>\<open>sgp4\<close> reports failure,
  otherwise the record as \<^verbatim>\<open>sgp4\<close> left it and the nine values pushed on the vector.
\<close>

definition propagate_point ::
  "'e sgp4_lib \<Rightarrow> real \<Rightarrow> 'e elsetrec_scheme \<Rightarrow> real
     \<Rightarrow> ('e elsetrec_scheme \<times> real list) option" where
  "propagate_point lib rad2deg satrec tsince =
     (case sgp4 lib wgs84 satrec tsince of
        (ok, satrec', (r0, r1, r2), (v0, v1, v2)) \<Rightarrow>
          if \<not> ok then None
          else Some (satrec',
                 [r0, r1, r2, v0, v1, v2] @
                 geodetic_fields lib rad2deg (r0, r1, r2) (v0, v1, v2)
                   (jdsatepoch satrec' + tsince / 1440)))"

text \<open>Step 5: the loop over the points, with the vector and the call log as accumulators.\<close>

function propagation_loop ::
  "'e sgp4_lib \<Rightarrow> real \<Rightarrow> real \<Rightarrow> int \<Rightarrow> int \<Rightarrow> 'e elsetrec_scheme \<Rightarrow> real list \<Rightarrow> real list
     \<Rightarrow> (jthrowable + real list) \<times> real list" where
  "propagation_loop lib rad2deg stepMinutes totalPoints i satrec trajectory calls =
     (if i < totalPoints then
        (let tsince = of_int i * stepMinutes in
         case propagate_point lib rad2deg satrec tsince of
           None \<Rightarrow>
             (Inl (RuntimeException (''SGP4 propagation failed at step '' @ to_string i)),
              calls @ [tsince])
         | Some (satrec', point) \<Rightarrow>
             propagation_loop lib rad2deg stepMinutes totalPoints (i + 1) satrec'
               (trajectory @ point) (calls @ [tsince]))
      else (Inr trajectory, calls))"
  by pat_completeness auto
termination
  by (relation "measure (\<lambda>(lib, rad2deg, stepMinutes, totalPoints, i, satrec, trajectory, calls).
                  nat (totalPoints - i))") auto

declare propagation_loop.simps [simp del]

text \<open>
  Step 2: \<^verbatim>\<open>strncpy\<close> keeps at most 129 characters of each line, then the library
  parses them. Of the outputs of \<^verbatim>\<open>twoline2rv\<close> only the satellite record is used.
\<close>

definition parse_tle :: "'e sgp4_lib \<Rightarrow> string \<Rightarrow> string \<Rightarrow> 'e elsetrec_scheme" where
  "parse_tle lib s1 s2 =
     twoline2rv lib (take 129 s1) (take 129 s2) CHR ''c'' CHR ''e'' CHR ''i'' wgs84"

text \<open>
  The whole function. \<open>l1\<close> and \<open>l2\<close> are the results of the two calls of
  \<^verbatim>\<open>GetStringUTFChars\<close>, \<open>None\<close> for \<^verbatim>\<open>nullptr\<close>. The argument of \<^verbatim>\<open>reserve\<close>,
  \<open>totalPoints * 9\<close>, is computed in \<^verbatim>\<open>int\<close> and must not overflow; a \<^verbatim>\<open>reserve\<close> that
  fails throws \<^verbatim>\<open>std::bad_alloc\<close>, which nothing catches.
\<close>

definition propagateFromTle ::
  "'e sgp4_lib \<Rightarrow> host \<Rightarrow> string option \<Rightarrow> string option \<Rightarrow> jdouble \<Rightarrow> jdouble
     \<Rightarrow> outcome \<times> real list" where
  "propagateFromTle lib env l1 l2 durationHours stepMinutes =
     (case (l1, l2) of
        (Some s1, Some s2) \<Rightarrow>
          (let satrec = parse_tle lib s1 s2 in
           if error satrec \<noteq> 0
           then (Thrown (IllegalArgumentException ''Invalid TLE format''), [])
           else
             (case time_steps (target env) durationHours stepMinutes of
                None \<Rightarrow> (Undefined, [])
              | Some totalPoints \<Rightarrow>
                  if totalPoints * 9 > INT_MAX then (Undefined, [])
                  else if \<not> reserve env (totalPoints * 9)
                  then (Uncaught ''std::bad_alloc'', [])
                  else
                    (case propagation_loop lib (180 / pi_c lib) stepMinutes totalPoints 0
                            satrec [] [] of
                       (Inl e, calls) \<Rightarrow> (Thrown e, calls)
                     | (Inr trajectory, calls) \<Rightarrow>
                         if NewDoubleArray env (int (length trajectory))
                         then (Returned trajectory, calls)
                         else (Thrown (OutOfMemoryError ''Failed to allocate result array''),
                               calls))))
      | _ \<Rightarrow> (Thrown (IllegalArgumentException ''TLE lines cannot be null''), []))"

subsection \<open>The run of the loop, index by index\<close>

text \<open>
  The satellite record as it stands before the call of \<^verbatim>\<open>sgp4\<close> for point \<open>k\<close>: the
  parsed record for \<open>k = 0\<close>, afterwards what the previous call left.
\<close>

fun satrec_at :: "'e sgp4_lib \<Rightarrow> real \<Rightarrow> 'e elsetrec_scheme \<Rightarrow> nat \<Rightarrow> 'e elsetrec_scheme" where
  "satrec_at lib stepMinutes satrec 0 = satrec"
| "satrec_at lib stepMinutes satrec (Suc k) =
     fst (snd (sgp4 lib wgs84 (satrec_at lib stepMinutes satrec k) (real k * stepMinutes)))"

text \<open>Whether \<^verbatim>\<open>sgp4\<close> reports success for point \<open>k\<close>.\<close>

definition sgp4_ok_at :: "'e sgp4_lib \<Rightarrow> real \<Rightarrow> 'e elsetrec_scheme \<Rightarrow> nat \<Rightarrow> bool" where
  "sgp4_ok_at lib stepMinutes satrec k \<longleftrightarrow>
     fst (sgp4 lib wgs84 (satrec_at lib stepMinutes satrec k) (real k * stepMinutes))"

text \<open>The nine values that the loop body pushes for point \<open>k\<close>.\<close>

definition point_at ::
  "'e sgp4_lib \<Rightarrow> real \<Rightarrow> real \<Rightarrow> 'e elsetrec_scheme \<Rightarrow> nat \<Rightarrow> real list" where
  "point_at lib rad2deg stepMinutes satrec k =
     (case propagate_point lib rad2deg (satrec_at lib stepMinutes satrec k)
             (real k * stepMinutes) of
        None \<Rightarrow> []
      | Some (satrec', point) \<Rightarrow> point)"

text \<open>Sample \<open>i\<close> of a flat array: its nine values.\<close>

definition sample :: "real list \<Rightarrow> nat \<Rightarrow> real list" where
  "sample xs i = take 9 (drop (9 * i) xs)"

text \<open>The elapsed times of the first \<open>n\<close> points.\<close>

definition elapsed_times :: "real \<Rightarrow> nat \<Rightarrow> real list" where
  "elapsed_times stepMinutes n = map (\<lambda>k. real k * stepMinutes) [0..<n]"

subsection \<open>A small library to run the function on\<close>

text \<open>
  A stand-in for the SGP4 library: the parser accepts two lines of 69 characters, the
  propagator succeeds up to 6000 minutes from the epoch and leaves the record as it is,
  the frame conversion stores the minutes since the epoch in the third coordinate, and
  the geodetic conversion answers a latitude of a quarter of \<open>pi_c\<close>, a longitude of minus
  a half of it and an altitude that grows by one kilometre a minute.
\<close>

definition demo_lib :: "unit sgp4_lib" where
  "demo_lib =
     \<lparr> pi_c = 3.14159265358979323846,
       twoline2rv = (\<lambda>l1 l2 typerun typeinput opsmode whichconst.
          \<lparr> error = (if length l1 = 69 \<and> length l2 = 69 then 0 else 1),
            jdsatepoch = 2459000.5 \<rparr>),
       sgp4 = (\<lambda>whichconst satrec tsince.
          (tsince \<le> 6000, satrec, (7000, tsince, 0), (0, 7.5, 0))),
       teme2ecef = (\<lambda>(x, y, z) v jdut1. ((x, y, (jdut1 - 2459000.5) * 1440), v)),
       ijk2ll = (\<lambda>(x, y, z).
          (0.785398163397448309615, - 1.57079632679489661923, x - 6378.135 + z)) \<rparr>"

text \<open>
  A host compiled for x86 where the vector obtains up to a million doubles and the Java
  heap an array of up to a hundred thousand.
\<close>

definition demo_env :: host where
  "demo_env =
     \<lparr> target = x86,
       reserve = (\<lambda>n. n \<le> 1000000),
       NewDoubleArray = (\<lambda>n. n \<le> 100000) \<rparr>"

definition iss_line1 :: string where
  "iss_line1 = ''1 25544U 98067A   20153.50000000  .00000883  00000-0  23840-4 0  9993''"

definition iss_line2 :: string where
  "iss_line2 = ''2 25544  51.6443  60.4993 0002178  12.4189 105.5468 15.49421239229575''"

text \<open>The double nearest to 1.1.\<close>

definition double_1_1 :: real where
  "double_1_1 = 2476979795053773 / 2251799813685248"

section \<open>Properties\<close>

subsection \<open>One step of the loop\<close>

lemma propagate_point_None:
  "propagate_point lib rd s t = None \<longleftrightarrow> \<not> fst (sgp4 lib wgs84 s t)"
  by (auto simp: propagate_point_def split: prod.splits)

lemma length_geodetic_fields: "length (geodetic_fields lib rd r v jd) = 3"
  by (simp add: geodetic_fields_def split: prod.splits)

lemma propagate_point_Some:
  "propagate_point lib rd s t = Some (s', p) \<Longrightarrow>
     s' = fst (snd (sgp4 lib wgs84 s t)) \<and> length p = 9"
  by (auto simp: propagate_point_def length_geodetic_fields split: prod.splits if_splits)

lemma propagate_point_at_fail:
  "\<not> sgp4_ok_at lib S rec k \<Longrightarrow>
     propagate_point lib rd (satrec_at lib S rec k) (real k * S) = None"
  by (simp add: propagate_point_None sgp4_ok_at_def)

lemma propagate_point_at_ok:
  assumes ok: "sgp4_ok_at lib S rec k"
  shows "propagate_point lib rd (satrec_at lib S rec k) (real k * S) =
           Some (satrec_at lib S rec (Suc k), point_at lib rd S rec k)"
proof -
  from ok have "propagate_point lib rd (satrec_at lib S rec k) (real k * S) \<noteq> None"
    by (simp add: propagate_point_None sgp4_ok_at_def)
  then obtain s' p where
    sp: "propagate_point lib rd (satrec_at lib S rec k) (real k * S) = Some (s', p)"
    by auto
  from propagate_point_Some [OF sp] have "s' = satrec_at lib S rec (Suc k)"
    by simp
  with sp show ?thesis
    by (simp add: point_at_def)
qed

lemma length_point_at: "sgp4_ok_at lib S rec k \<Longrightarrow> length (point_at lib rd S rec k) = 9"
  using propagate_point_at_ok [of lib S rec k rd] propagate_point_Some by blast

subsection \<open>The loop\<close>

lemma loop_all_ok:
  "k \<le> m \<Longrightarrow> (\<And>j. k \<le> j \<Longrightarrow> j < m \<Longrightarrow> sgp4_ok_at lib S rec j) \<Longrightarrow>
     propagation_loop lib rd S (int m) (int k) (satrec_at lib S rec k) traj calls =
       (Inr (traj @ concat (map (point_at lib rd S rec) [k..<m])),
        calls @ map (\<lambda>j. real j * S) [k..<m])"
proof (induction "m - k" arbitrary: k traj calls)
  case 0
  then have "k = m" by simp
  then show ?case
    by (simp add: propagation_loop.simps [of lib rd S "int m" "int m"])
next
  case (Suc d)
  then have lt: "k < m" and d: "d = m - Suc k" by simp_all
  have ok: "sgp4_ok_at lib S rec k" using Suc.prems lt by simp
  have step: "propagation_loop lib rd S (int m) (int k) (satrec_at lib S rec k) traj calls =
      propagation_loop lib rd S (int m) (int (Suc k)) (satrec_at lib S rec (Suc k))
        (traj @ point_at lib rd S rec k) (calls @ [real k * S])"
    using lt
    by (subst propagation_loop.simps)
       (simp add: Let_def propagate_point_at_ok [OF ok] add.commute)
  have ih: "propagation_loop lib rd S (int m) (int (Suc k)) (satrec_at lib S rec (Suc k))
        (traj @ point_at lib rd S rec k) (calls @ [real k * S]) =
       (Inr ((traj @ point_at lib rd S rec k) @
               concat (map (point_at lib rd S rec) [Suc k..<m])),
        (calls @ [real k * S]) @ map (\<lambda>j. real j * S) [Suc k..<m])"
    using Suc.hyps(1) [OF d] lt Suc.prems(2) by simp
  show ?case
    unfolding step ih using lt by (simp add: upt_conv_Cons)
qed

lemma loop_fails:
  "k \<le> i \<Longrightarrow> i < m \<Longrightarrow> (\<And>j. k \<le> j \<Longrightarrow> j < i \<Longrightarrow> sgp4_ok_at lib S rec j) \<Longrightarrow>
   \<not> sgp4_ok_at lib S rec i \<Longrightarrow>
     propagation_loop lib rd S (int m) (int k) (satrec_at lib S rec k) traj calls =
       (Inl (RuntimeException (''SGP4 propagation failed at step '' @ to_string (int i))),
        calls @ map (\<lambda>j. real j * S) [k..<Suc i])"
proof (induction "i - k" arbitrary: k traj calls)
  case 0
  then have "k = i" by simp
  then show ?case
    using 0
    by (subst propagation_loop.simps) (simp add: Let_def propagate_point_at_fail)
next
  case (Suc d)
  then have lt: "k < i" and d: "d = i - Suc k" by simp_all
  have ok: "sgp4_ok_at lib S rec k" using Suc.prems lt by simp
  have step: "propagation_loop lib rd S (int m) (int k) (satrec_at lib S rec k) traj calls =
      propagation_loop lib rd S (int m) (int (Suc k)) (satrec_at lib S rec (Suc k))
        (traj @ point_at lib rd S rec k) (calls @ [real k * S])"
    using lt Suc.prems(2)
    by (subst propagation_loop.simps)
       (simp add: Let_def propagate_point_at_ok [OF ok] add.commute)
  have ih: "propagation_loop lib rd S (int m) (int (Suc k)) (satrec_at lib S rec (Suc k))
        (traj @ point_at lib rd S rec k) (calls @ [real k * S]) =
       (Inl (RuntimeException (''SGP4 propagation failed at step '' @ to_string (int i))),
        (calls @ [real k * S]) @ map (\<lambda>j. real j * S) [Suc k..<Suc i])"
    using Suc.hyps(1) [OF d] lt Suc.prems by simp
  show ?case
    unfolding step ih using lt by (simp add: upt_conv_Cons)
qed

subsection \<open>Blocks of nine values\<close>

lemma length_concat_points:
  "(\<And>j. j < n \<Longrightarrow> length (f j) = 9) \<Longrightarrow> length (concat (map f [0..<n])) = 9 * n"
  by (induction n) simp_all

lemma sample_concat_points:
  "(\<And>j. j < n \<Longrightarrow> length (f j) = 9) \<Longrightarrow> i < n \<Longrightarrow>
     sample (concat (map f [0..<n])) i = f i"
proof (induction n)
  case 0
  then show ?case by simp
next
  case (Suc n)
  have len: "length (concat (map f [0..<n])) = 9 * n"
    using Suc.prems(1) by (simp add: length_concat_points)
  show ?case
  proof (cases "i < n")
    case True
    then have "9 * i + 9 \<le> 9 * n" by simp
    with Suc.IH [OF _ True] Suc.prems(1) len show ?thesis
      by (simp add: sample_def)
  next
    case False
    with Suc.prems(2) have "i = n" by simp
    with len Suc.prems(1) [of n] show ?thesis
      by (simp add: sample_def)
  qed
qed

subsection \<open>Rounding keeps the sign\<close>

lemma norm_up_pos:
  "0 \<le> m \<Longrightarrow> 0 < s \<Longrightarrow> norm_up k m s = (m', s') \<Longrightarrow> 0 \<le> m' \<and> 0 < s'"
proof (induction k m s rule: norm_up.induct)
  case (1 k m s)
  show ?case
  proof (cases "k = 0 \<or> m < 2")
    case True
    with "1.prems" show ?thesis
      by (simp add: norm_up.simps [of k m s])
  next
    case False
    with "1.prems" have "norm_up (k - 1) (m / 2) (s * 2) = (m', s')"
      by (simp add: norm_up.simps [of k m s])
    with "1.IH" [OF False] "1.prems" show ?thesis by simp
  qed
qed

lemma norm_down_pos:
  "0 \<le> m \<Longrightarrow> 0 < s \<Longrightarrow> norm_down k m s = (m', s') \<Longrightarrow> 0 \<le> m' \<and> 0 < s'"
proof (induction k m s rule: norm_down.induct)
  case (1 k m s)
  show ?case
  proof (cases "k = 0 \<or> 1 \<le> m")
    case True
    with "1.prems" show ?thesis
      by (simp add: norm_down.simps [of k m s])
  next
    case False
    with "1.prems" have "norm_down (k - 1) (m * 2) (s / 2) = (m', s')"
      by (simp add: norm_down.simps [of k m s])
    with "1.IH" [OF False] "1.prems" show ?thesis by simp
  qed
qed

lemma round_even_nonneg: "0 \<le> q \<Longrightarrow> 0 \<le> round_even q"
proof -
  assume "0 \<le> q"
  then have "0 \<le> \<lfloor>q\<rfloor>" by simp
  then show ?thesis
    by (simp add: round_even_def Let_def)
qed

lemma rounded_magnitude_nonneg:
  assumes "0 \<le> a"
  shows "0 \<le> rounded_magnitude a"
proof -
  obtain m s where ms: "(if 1 \<le> a then norm_up 1024 a 1 else norm_down 1022 a 1) = (m, s)"
    by (cases "if 1 \<le> a then norm_up 1024 a 1 else norm_down 1022 a 1") auto
  have "0 \<le> m \<and> 0 < s"
  proof (cases "1 \<le> a")
    case True
    with ms have "norm_up 1024 a 1 = (m, s)" by simp
    then show ?thesis using norm_up_pos [of a 1 1024 m s] assms by simp
  next
    case False
    with ms have "norm_down 1022 a 1 = (m, s)" by simp
    then show ?thesis using norm_down_pos [of a 1 1022 m s] assms by simp
  qed
  then have "0 \<le> round_even (m * 2 ^ 52)" and "0 < s"
    by (simp_all add: round_even_nonneg)
  then have "0 \<le> real_of_int (round_even (m * 2 ^ 52)) / 2 ^ 52 * s" by simp
  then show ?thesis
    unfolding rounded_magnitude_def ms by simp
qed

lemma binary64_nonneg:
  assumes "0 \<le> x"
  shows "binary64 x = PosInf \<or> (\<exists>y. 0 \<le> y \<and> binary64 x = Finite y)"
  using assms rounded_magnitude_nonneg [of "\<bar>x\<bar>"]
  by (auto simp: binary64_def Let_def)


subsection \<open>The number of points\<close>

lemma double_to_int_in_range:
  "INT_MIN \<le> z \<Longrightarrow> z \<le> INT_MAX \<Longrightarrow> double_to_int tgt (Finite (of_int z)) = z"
  by (simp add: double_to_int_def)



lemma time_steps_eq:
  "std_floor (double_div (double_mul D 60) S) = Finite (of_int q) \<Longrightarrow>
   INT_MIN \<le> q \<Longrightarrow> q < INT_MAX \<Longrightarrow>
     time_steps tgt D S = Some (max 0 q + 1)"
  by (simp add: time_steps_def double_to_int_in_range Let_def INT_MAX_def INT_MIN_def)

lemma time_steps_Some:
  "time_steps tgt D S = Some n \<Longrightarrow> 1 \<le> n \<and> n \<le> INT_MAX"
  by (auto simp: time_steps_def Let_def split: if_splits)

lemma quotient_floor_nonneg:
  assumes D: "0 \<le> D" and S: "0 < S"
    and q: "std_floor (double_div (double_mul D 60) S) = Finite (of_int q)"
  shows "0 \<le> q"
proof -
  from D have "0 \<le> D * 60" by simp
  from binary64_nonneg [OF this] consider "double_mul D 60 = PosInf"
    | p where "0 \<le> p" "double_mul D 60 = Finite p"
    by (auto simp: double_mul_def)
  then show ?thesis
  proof cases
    case 1
    with q S show ?thesis by (simp add: double_div_def std_floor_def)
  next
    case (2 p)
    with S have "0 \<le> p / S" by simp
    from binary64_nonneg [OF this] consider "binary64 (p / S) = PosInf"
      | r where "0 \<le> r" "binary64 (p / S) = Finite r" by auto
    then show ?thesis
    proof cases
      case 1
      with 2 q S show ?thesis by (simp add: double_div_def std_floor_def)
    next
      case (2 r)
      with \<open>double_mul D 60 = Finite p\<close> q S have "real_of_int q = of_int \<lfloor>r\<rfloor>"
        by (simp add: double_div_def std_floor_def)
      then have "q = \<lfloor>r\<rfloor>" by linarith
      with 2 show ?thesis by simp
    qed
  qed
qed





text \<open>The equations that evaluate step 3 on numerals.\<close>

lemmas step3 =
  time_steps_def double_mul_def double_div_def std_floor_def binary64_def
  rounded_magnitude_def round_even_def norm_up.simps norm_down.simps double_to_int_def out_of_range_def INT_MAX_def INT_MIN_def
  Let_def

subsection \<open>Decimal numerals\<close>

lemma digit_val_digit_char: "d < 10 \<Longrightarrow> digit_val (digit_char d) = d"
  by (simp add: digit_val_def digit_char_def)

lemma read_nat_digits: "read_nat (digits n) = n"
proof (induction n rule: digits.induct)
  case (1 n)
  show ?case
  proof (cases "n < 10")
    case True
    then show ?thesis
      by (subst digits.simps) (simp add: read_nat_def digit_val_digit_char)
  next
    case False
    with 1 have ih: "read_nat (digits (n div 10)) = n div 10" by simp
    have "read_nat (digits n) = 10 * read_nat (digits (n div 10)) + n mod 10"
      using False
      by (subst digits.simps) (simp add: read_nat_def digit_val_digit_char)
    with ih show ?thesis by simp
  qed
qed

lemma digits_inject: "digits n = digits m \<Longrightarrow> n = m"
  by (metis read_nat_digits)

lemma of_char_digit_char: "d < 10 \<Longrightarrow> (of_char (digit_char d) :: nat) = 48 + d"
  by (simp add: digit_char_def)

lemma digit_char_not_minus: "d < 10 \<Longrightarrow> digit_char d \<noteq> CHR ''-''"
proof
  assume d: "d < 10" and eq: "digit_char d = CHR ''-''"
  from eq have "(of_char (digit_char d) :: nat) = of_char CHR ''-''" by simp
  with d show False
    by (simp add: of_char_digit_char)
qed

lemma hd_digits: "\<exists>d cs. d < 10 \<and> digits n = digit_char d # cs"
proof (induction n rule: digits.induct)
  case (1 n)
  show ?case
  proof (cases "n < 10")
    case True
    then have "digits n = [digit_char n]"
      using digits.simps [of n] by simp
    with True show ?thesis by blast
  next
    case False
    with 1 obtain d cs where d: "d < 10" and ds: "digits (n div 10) = digit_char d # cs"
      by auto
    from False have "digits n = digits (n div 10) @ [digit_char (n mod 10)]"
      using digits.simps [of n] by simp
    with ds have "digits n = digit_char d # (cs @ [digit_char (n mod 10)])"
      by simp
    with d show ?thesis by blast
  qed
qed

lemma digits_not_minus: "digits n \<noteq> CHR ''-'' # cs"
proof
  assume eq: "digits n = CHR ''-'' # cs"
  from hd_digits [of n] obtain d cs' where "d < 10" "digits n = digit_char d # cs'"
    by blast
  with eq digit_char_not_minus [of d] show False by simp
qed

lemma to_string_inject: "to_string i = to_string j \<Longrightarrow> i = j"
proof -
  assume eq: "to_string i = to_string j"
  consider "i < 0" "j < 0" | "0 \<le> i" "0 \<le> j" | "i < 0" "0 \<le> j" | "0 \<le> i" "j < 0"
    by linarith
  then show ?thesis
  proof cases
    case 1
    with eq have "nat (- i) = nat (- j)"
      by (simp add: to_string_def digits_inject)
    with 1 show ?thesis by simp
  next
    case 2
    with eq have "nat i = nat j"
      by (simp add: to_string_def digits_inject)
    with 2 show ?thesis by simp
  next
    case 3
    with eq have "digits (nat j) = CHR ''-'' # digits (nat (- i))"
      by (simp add: to_string_def)
    with digits_not_minus show ?thesis by blast
  next
    case 4
    with eq have "digits (nat i) = CHR ''-'' # digits (nat (- j))"
      by (simp add: to_string_def)
    with digits_not_minus show ?thesis by blast
  qed
qed

subsection \<open>The whole call\<close>

lemma run_reaches_loop:
  "error (parse_tle lib s1 s2) = 0 \<Longrightarrow> time_steps (target env) D S = Some n \<Longrightarrow>
   n * 9 \<le> INT_MAX \<Longrightarrow> reserve env (n * 9) \<Longrightarrow>
   propagateFromTle lib env (Some s1) (Some s2) D S =
     (case propagation_loop lib (180 / pi_c lib) S n 0 (parse_tle lib s1 s2) [] [] of
        (Inl e, calls) \<Rightarrow> (Thrown e, calls)
      | (Inr trajectory, calls) \<Rightarrow>
          if NewDoubleArray env (int (length trajectory))
          then (Returned trajectory, calls)
          else (Thrown (OutOfMemoryError ''Failed to allocate result array''), calls))"
  by (simp add: propagateFromTle_def Let_def)

lemma run_reserve_fails:
  "error (parse_tle lib s1 s2) = 0 \<Longrightarrow> time_steps (target env) D S = Some n \<Longrightarrow>
   n * 9 \<le> INT_MAX \<Longrightarrow> \<not> reserve env (n * 9) \<Longrightarrow>
   propagateFromTle lib env (Some s1) (Some s2) D S = (Uncaught ''std::bad_alloc'', [])"
  by (simp add: propagateFromTle_def Let_def)

lemma rejected_run:
  "error (parse_tle lib s1 s2) \<noteq> 0 \<Longrightarrow>
   propagateFromTle lib env (Some s1) (Some s2) D S =
     (Thrown (IllegalArgumentException ''Invalid TLE format''), [])"
  by (simp add: propagateFromTle_def Let_def)

lemma run_all_ok:
  assumes acc: "error (parse_tle lib s1 s2) = 0"
    and ts: "time_steps (target env) D S = Some n" and fits: "n * 9 \<le> INT_MAX"
    and res: "reserve env (n * 9)"
    and ok: "\<And>j. j < nat n \<Longrightarrow> sgp4_ok_at lib S (parse_tle lib s1 s2) j"
  shows "propagateFromTle lib env (Some s1) (Some s2) D S =
           ((if NewDoubleArray env (9 * n)
             then Returned (concat (map (point_at lib (180 / pi_c lib) S (parse_tle lib s1 s2))
                                     [0..<nat n]))
             else Thrown (OutOfMemoryError ''Failed to allocate result array'')),
            elapsed_times S (nat n))"
proof -
  from time_steps_Some [OF ts] have n: "1 \<le> n" by simp
  have len: "length (concat (map (point_at lib (180 / pi_c lib) S (parse_tle lib s1 s2))
                       [0..<nat n])) = 9 * nat n"
    using ok by (intro length_concat_points) (simp add: length_point_at)
  have loop: "propagation_loop lib (180 / pi_c lib) S n 0 (parse_tle lib s1 s2) [] [] =
      (Inr (concat (map (point_at lib (180 / pi_c lib) S (parse_tle lib s1 s2)) [0..<nat n])),
       elapsed_times S (nat n))"
    using loop_all_ok [of 0 "nat n" lib S "parse_tle lib s1 s2" "180 / pi_c lib" "[]" "[]"]
      ok n by (simp add: elapsed_times_def)
  have "int (9 * nat n) = 9 * n" using n by simp
  then show ?thesis
    unfolding run_reaches_loop [OF acc ts fits res] loop by (simp add: len)
qed

lemma run_first_failure:
  assumes acc: "error (parse_tle lib s1 s2) = 0"
    and ts: "time_steps (target env) D S = Some n" and fits: "n * 9 \<le> INT_MAX"
    and res: "reserve env (n * 9)"
    and i: "i < nat n"
    and ok: "\<And>j. j < i \<Longrightarrow> sgp4_ok_at lib S (parse_tle lib s1 s2) j"
    and fail: "\<not> sgp4_ok_at lib S (parse_tle lib s1 s2) i"
  shows "propagateFromTle lib env (Some s1) (Some s2) D S =
           (Thrown (RuntimeException
                      (''SGP4 propagation failed at step '' @ to_string (int i))),
            elapsed_times S (Suc i))"
proof -
  from time_steps_Some [OF ts] have n: "1 \<le> n" by simp
  have loop: "propagation_loop lib (180 / pi_c lib) S n 0 (parse_tle lib s1 s2) [] [] =
      (Inl (RuntimeException (''SGP4 propagation failed at step '' @ to_string (int i))),
       elapsed_times S (Suc i))"
    using loop_fails [of 0 i "nat n" lib S "parse_tle lib s1 s2" "180 / pi_c lib" "[]" "[]"]
      ok fail i n by (simp add: elapsed_times_def)
  show ?thesis
    unfolding run_reaches_loop [OF acc ts fits res] loop by simp
qed

lemma first_failure:
  assumes "\<not> (\<forall>j<n::nat. P j)"
  shows "\<exists>i<n. \<not> P i \<and> (\<forall>j<i. P j)"
proof -
  from assms obtain k where k: "k < n" "\<not> P k" by auto
  define i where "i = (LEAST i. \<not> P i)"
  have a: "\<not> P i" unfolding i_def using k(2) by (rule LeastI)
  have "i \<le> k" unfolding i_def using k(2) by (rule Least_le)
  with k(1) have b: "i < n" by simp
  have c: "\<forall>j<i. P j" unfolding i_def using not_less_Least by blast
  from a b c show ?thesis by blast
qed

lemma run_Returned:
  assumes run: "propagateFromTle lib env (Some s1) (Some s2) D S = (Returned xs, calls)"
  shows "\<exists>n. error (parse_tle lib s1 s2) = 0 \<and> time_steps (target env) D S = Some n \<and>
           n * 9 \<le> INT_MAX \<and> reserve env (n * 9) \<and>
           (\<forall>j<nat n. sgp4_ok_at lib S (parse_tle lib s1 s2) j) \<and>
           NewDoubleArray env (9 * n) \<and>
           xs = concat (map (point_at lib (180 / pi_c lib) S (parse_tle lib s1 s2)) [0..<nat n]) \<and>
           calls = elapsed_times S (nat n)"
proof -
  have acc: "error (parse_tle lib s1 s2) = 0"
    using run by (auto simp: propagateFromTle_def Let_def split: if_splits)
  obtain n where ts: "time_steps (target env) D S = Some n"
    using run acc
    by (cases "time_steps (target env) D S") (auto simp: propagateFromTle_def Let_def)
  have fits: "n * 9 \<le> INT_MAX"
    using run acc ts by (auto simp: propagateFromTle_def Let_def split: if_splits)
  have res: "reserve env (n * 9)"
    using run acc ts fits by (auto simp: propagateFromTle_def Let_def split: if_splits)
  have ok: "\<forall>j<nat n. sgp4_ok_at lib S (parse_tle lib s1 s2) j"
  proof (rule ccontr)
    assume "\<not> ?thesis"
    from first_failure [OF this] obtain i where
      "i < nat n" "\<not> sgp4_ok_at lib S (parse_tle lib s1 s2) i"
      "\<forall>j<i. sgp4_ok_at lib S (parse_tle lib s1 s2) j" by blast
    with run_first_failure [OF acc ts fits res, of i] run show False by simp
  qed
  with run_all_ok [OF acc ts fits res] run acc ts fits res show ?thesis
    by (auto split: if_splits)
qed

lemma run_outcomes:
  assumes acc: "error (parse_tle lib s1 s2) = 0"
    and ts: "time_steps (target env) D S = Some n" and fits: "n * 9 \<le> INT_MAX"
    and res: "reserve env (n * 9)"
  shows "(\<forall>j<nat n. sgp4_ok_at lib S (parse_tle lib s1 s2) j) \<and>
         propagateFromTle lib env (Some s1) (Some s2) D S =
           ((if NewDoubleArray env (9 * n)
             then Returned (concat (map (point_at lib (180 / pi_c lib) S (parse_tle lib s1 s2))
                                     [0..<nat n]))
             else Thrown (OutOfMemoryError ''Failed to allocate result array'')),
            elapsed_times S (nat n))
       \<or> (\<exists>i<nat n. (\<forall>j<i. sgp4_ok_at lib S (parse_tle lib s1 s2) j) \<and>
              \<not> sgp4_ok_at lib S (parse_tle lib s1 s2) i \<and>
              propagateFromTle lib env (Some s1) (Some s2) D S =
                (Thrown (RuntimeException
                           (''SGP4 propagation failed at step '' @ to_string (int i))),
                 elapsed_times S (Suc i)))"
proof (cases "\<forall>j<nat n. sgp4_ok_at lib S (parse_tle lib s1 s2) j")
  case True
  with run_all_ok [OF acc ts fits res] show ?thesis by simp
next
  case False
  from first_failure [OF False] obtain i where
    i: "i < nat n" and fail: "\<not> sgp4_ok_at lib S (parse_tle lib s1 s2) i"
    and ok: "\<forall>j<i. sgp4_ok_at lib S (parse_tle lib s1 s2) j" by blast
  from run_first_failure [OF acc ts fits res i _ fail] ok
  have "propagateFromTle lib env (Some s1) (Some s2) D S =
          (Thrown (RuntimeException
                     (''SGP4 propagation failed at step '' @ to_string (int i))),
           elapsed_times S (Suc i))" by simp
  with i fail ok show ?thesis by blast
qed

lemma length_elapsed_times: "length (elapsed_times S n) = n"
  by (simp add: elapsed_times_def)

lemma nth_elapsed_times: "i < n \<Longrightarrow> elapsed_times S n ! i = real i * S"
  by (simp add: elapsed_times_def)

lemma sorted_elapsed_times: "0 < S \<Longrightarrow> sorted_wrt (<) (elapsed_times S n)"
  by (simp add: sorted_wrt_iff_nth_less length_elapsed_times nth_elapsed_times)

lemma returned_samples:
  assumes run: "propagateFromTle lib env (Some s1) (Some s2) D S = (Returned xs, calls)"
  shows "length xs = 9 * length calls"
    and "calls = elapsed_times S (length calls)"
    and "i < length calls \<Longrightarrow> sgp4_ok_at lib S (parse_tle lib s1 s2) i"
    and "i < length calls \<Longrightarrow>
           sample xs i = point_at lib (180 / pi_c lib) S (parse_tle lib s1 s2) i"
proof -
  from run_Returned [OF run] obtain n where
    ok: "\<forall>j<nat n. sgp4_ok_at lib S (parse_tle lib s1 s2) j"
    and xs: "xs = concat (map (point_at lib (180 / pi_c lib) S (parse_tle lib s1 s2))
                     [0..<nat n])"
    and calls: "calls = elapsed_times S (nat n)" by blast
  have len: "length calls = nat n" using calls by (simp add: length_elapsed_times)
  have nine: "\<And>j. j < nat n \<Longrightarrow>
      length (point_at lib (180 / pi_c lib) S (parse_tle lib s1 s2) j) = 9"
    using ok by (simp add: length_point_at)
  show "length xs = 9 * length calls"
    unfolding xs len using nine by (rule length_concat_points)
  show "calls = elapsed_times S (length calls)"
    using calls len by simp
  show "i < length calls \<Longrightarrow> sgp4_ok_at lib S (parse_tle lib s1 s2) i"
    using ok len by simp
  show "i < length calls \<Longrightarrow>
      sample xs i = point_at lib (180 / pi_c lib) S (parse_tle lib s1 s2) i"
    unfolding xs len using nine by (rule sample_concat_points)
qed

lemma points_fit: "(n::int) \<le> 238609294 \<Longrightarrow> n * 9 \<le> INT_MAX"
  by (simp add: INT_MAX_def)

lemma accepted_not_invalid_input:
  assumes acc: "error (parse_tle lib s1 s2) = 0"
  shows "fst (propagateFromTle lib env (Some s1) (Some s2) D S) \<noteq>
           Thrown (IllegalArgumentException msg)"
proof (cases "time_steps (target env) D S")
  case None
  with acc show ?thesis by (simp add: propagateFromTle_def Let_def)
next
  case (Some n)
  show ?thesis
  proof (cases "n * 9 \<le> INT_MAX")
    case False
    with acc Some show ?thesis by (simp add: propagateFromTle_def Let_def)
  next
    case fits: True
    show ?thesis
    proof (cases "reserve env (n * 9)")
      case False
      with run_reserve_fails [OF acc Some fits] show ?thesis by simp
    next
      case True
      from run_outcomes [OF acc Some fits True] show ?thesis
        by (auto split: if_splits)
    qed
  qed
qed

subsection \<open>The stand-in library\<close>

lemma demo_accepts: "error (parse_tle demo_lib iss_line1 iss_line2) = 0"
  by (simp add: parse_tle_def demo_lib_def iss_line1_def iss_line2_def)

lemma demo_satrec_at: "satrec_at demo_lib S rec k = rec"
  by (induction k) (simp_all add: demo_lib_def)

lemma demo_sgp4_ok_at: "sgp4_ok_at demo_lib S rec k \<longleftrightarrow> real k * S \<le> 6000"
  by (simp add: sgp4_ok_at_def demo_lib_def)

lemma demo_alloc: "NewDoubleArray demo_env n \<longleftrightarrow> n \<le> 100000"
  by (simp add: demo_env_def)

lemma demo_reserve: "reserve demo_env n \<longleftrightarrow> n \<le> 1000000"
  by (simp add: demo_env_def)

lemma demo_target: "target demo_env = x86"
  by (simp add: demo_env_def)

lemma jdsatepoch_satrec_at:
  assumes "\<forall>whichconst satrec tsince.
             jdsatepoch (fst (snd (sgp4 lib whichconst satrec tsince))) = jdsatepoch satrec"
  shows "jdsatepoch (satrec_at lib S rec k) = jdsatepoch rec"
  using assms by (induction k) simp_all

lemma geodetic_fields_eq:
  "ijk2ll lib (fst (teme2ecef lib r v jd)) = (lat, lon, alt) \<Longrightarrow>
     geodetic_fields lib rd r v jd = [lat * rd, lon * rd, alt]"
  by (cases "teme2ecef lib r v jd") (simp add: geodetic_fields_def)

lemma point_at_layout:
  assumes ok: "sgp4_ok_at lib S rec i"
    and state: "sgp4 lib wgs84 (satrec_at lib S rec i) (real i * S) =
                  (ok', satrec', (x, y, z), (vx, vy, vz))"
  shows "point_at lib rd S rec i =
           [x, y, z, vx, vy, vz] @
           geodetic_fields lib rd (x, y, z) (vx, vy, vz) (jdsatepoch satrec' + real i * S / 1440)"
  using ok state by (simp add: point_at_def propagate_point_def sgp4_ok_at_def)

lemma demo_run_1_30:
  "propagateFromTle demo_lib demo_env (Some iss_line1) (Some iss_line2) 1 30 =
     (Returned [7000, 0, 0, 0, 7.5, 0, 45, - 90, 621.865,
                7000, 30, 0, 0, 7.5, 0, 45, - 90, 651.865,
                7000, 60, 0, 0, 7.5, 0, 45, - 90, 681.865], [0, 30, 60])"
  by (simp add: propagateFromTle_def parse_tle_def demo_lib_def demo_env_def iss_line1_def
      iss_line2_def step3 propagation_loop.simps propagate_point_def geodetic_fields_def)

section \<open>The claims\<close>

text \<open>
  C1, as amended. The program computes the quotient in double arithmetic: the product
  \<open>D * 60\<close> is rounded to a double, and so is its quotient by \<open>S\<close>. Let \<open>q\<close> be the floor of
  that quotient. For an accepted pair of lines, a duration \<open>D \<ge> 0\<close> hours and a step
  \<open>S > 0\<close> minutes such that \<open>q + 1\<close> is at most 238609294 (the number of points and nine
  times that number are then values of \<^verbatim>\<open>int\<close>), when every call of \<^verbatim>\<open>sgp4\<close> succeeds,
  \<^verbatim>\<open>reserve\<close> obtains the memory of the vector and the result array can be allocated, the
  call returns exactly \<open>q + 1\<close> samples of nine values each. For 90 hours at 10 minutes
  these are 541 samples, for 0 hours at 1 minute it is one sample.
\<close>

theorem sample_count:
  assumes acc: "error (parse_tle lib s1 s2) = 0"
    and D: "0 \<le> D" and S: "0 < S"
    and q: "std_floor (double_div (double_mul D 60) S) = Finite (of_int q)"
    and range: "q + 1 \<le> 238609294"
    and ok: "\<forall>k<nat (q + 1). sgp4_ok_at lib S (parse_tle lib s1 s2) k"
    and res: "reserve env ((q + 1) * 9)"
    and alloc: "NewDoubleArray env (9 * (q + 1))"
  shows "\<exists>xs. propagateFromTle lib env (Some s1) (Some s2) D S =
                (Returned xs, elapsed_times S (nat (q + 1))) \<and>
              int (length xs) = 9 * (q + 1)"
proof -
  let ?n = "q + 1"
  have nonneg: "0 \<le> q" using D S q by (rule quotient_floor_nonneg)
  have ts: "time_steps (target env) D S = Some ?n"
    using time_steps_eq [OF q, of "target env"] nonneg range
    by (simp add: INT_MAX_def INT_MIN_def)
  have fits: "?n * 9 \<le> INT_MAX" using range by (rule points_fit)
  have run: "propagateFromTle lib env (Some s1) (Some s2) D S =
      (Returned (concat (map (point_at lib (180 / pi_c lib) S (parse_tle lib s1 s2))
                          [0..<nat ?n])),
       elapsed_times S (nat ?n))"
    using run_all_ok [OF acc ts fits res] ok alloc by simp
  have "length (concat (map (point_at lib (180 / pi_c lib) S (parse_tle lib s1 s2))
                          [0..<nat ?n])) = 9 * nat ?n"
    using ok by (intro length_concat_points) (simp add: length_point_at)
  then have "int (length (concat (map (point_at lib (180 / pi_c lib) S (parse_tle lib s1 s2))
                          [0..<nat ?n]))) = 9 * ?n"
    using nonneg by simp
  with run show ?thesis by blast
qed

theorem sample_count_witness:
  "(\<exists>xs. propagateFromTle demo_lib demo_env (Some iss_line1) (Some iss_line2) 90 10 =
            (Returned xs, elapsed_times 10 541) \<and> int (length xs) = 9 * 541) \<and>
   (\<exists>xs. propagateFromTle demo_lib demo_env (Some iss_line1) (Some iss_line2) 0 1 =
            (Returned xs, elapsed_times 1 1) \<and> int (length xs) = 9 * 1)"
proof -
  have q1: "std_floor (double_div (double_mul 90 60) 10) = Finite (of_int 540)"
    by (simp add: step3)
  have q2: "std_floor (double_div (double_mul 0 60) 1) = Finite (of_int 0)"
    by (simp add: step3)
  have ok1: "\<forall>k<nat (540 + 1).
      sgp4_ok_at demo_lib 10 (parse_tle demo_lib iss_line1 iss_line2) k"
    by (simp add: demo_sgp4_ok_at)
  have ok2: "\<forall>k<nat (0 + 1).
      sgp4_ok_at demo_lib 1 (parse_tle demo_lib iss_line1 iss_line2) k"
    by (simp add: demo_sgp4_ok_at)
  have a: "\<exists>xs. propagateFromTle demo_lib demo_env (Some iss_line1) (Some iss_line2) 90 10 =
            (Returned xs, elapsed_times 10 541) \<and> int (length xs) = 9 * 541"
    using sample_count [OF demo_accepts _ _ q1 _ ok1, of demo_env]
    by (simp add: demo_alloc demo_reserve)
  have b: "\<exists>xs. propagateFromTle demo_lib demo_env (Some iss_line1) (Some iss_line2) 0 1 =
            (Returned xs, elapsed_times 1 1) \<and> int (length xs) = 9 * 1"
    using sample_count [OF demo_accepts _ _ q2 _ ok2, of demo_env]
    by (simp add: demo_alloc demo_reserve)
  from a b show ?thesis by blast
qed

text \<open>
  C1 as the specification states it, with the exact quotient and for every \<open>D \<ge> 0\<close> and
  \<open>S > 0\<close>, fails in two ways. With 36000000 hours and a step of one minute the quotient
  2160000000 is not a value of \<^verbatim>\<open>int\<close>: on x86 the conversion gives \<open>INT_MIN\<close>, the clamp
  makes it zero and the call returns one sample, not 2160000001. With the duration and the
  step both equal to the double nearest to 1.1 the exact quotient is 60, but the rounded
  product 66 divided by the step rounds to the double below 60: the call returns 60
  samples, not 61. Nor is the absence of a propagation failure enough: with 100 hours at
  half a minute all 12001 propagation steps succeed and the result array is refused, and
  at a step of 1/32 minute the vector is refused its memory before the first step.
\<close>

theorem sample_count_counterexample:
  "error (parse_tle demo_lib iss_line1 iss_line2) = 0 \<and>
   (0::real) \<le> 36000000 \<and> (0::real) < 1 \<and>
   \<lfloor>(36000000::real) * 60 / 1\<rfloor> + 1 = 2160000001 \<and>
   propagateFromTle demo_lib demo_env (Some iss_line1) (Some iss_line2) 36000000 1 =
     (Returned [7000, 0, 0, 0, 7.5, 0, 45, - 90, 621.865], [0]) \<and>
   0 \<le> double_1_1 \<and> 0 < double_1_1 \<and>
   \<lfloor>double_1_1 * 60 / double_1_1\<rfloor> + 1 = 61 \<and>
   time_steps x86 double_1_1 double_1_1 = Some 60 \<and>
   propagateFromTle demo_lib demo_env (Some iss_line1) (Some iss_line2)
       double_1_1 double_1_1 =
     (Returned (concat (map (point_at demo_lib (180 / pi_c demo_lib) double_1_1
                               (parse_tle demo_lib iss_line1 iss_line2)) [0..<60])),
      elapsed_times double_1_1 60) \<and>
   propagateFromTle demo_lib demo_env (Some iss_line1) (Some iss_line2) 100 0.5 =
     (Thrown (OutOfMemoryError ''Failed to allocate result array''),
      elapsed_times 0.5 12001) \<and>
   propagateFromTle demo_lib demo_env (Some iss_line1) (Some iss_line2) 100 0.03125 =
     (Uncaught ''std::bad_alloc'', [])"
proof -
  have ts3: "time_steps (target demo_env) 100 0.5 = Some 12001"
    by (simp add: demo_target step3)
  have refused: "propagateFromTle demo_lib demo_env (Some iss_line1) (Some iss_line2) 100 0.5 =
      (Thrown (OutOfMemoryError ''Failed to allocate result array''),
       elapsed_times 0.5 12001)"
    using run_all_ok [OF demo_accepts ts3]
    by (simp add: demo_sgp4_ok_at demo_alloc demo_reserve INT_MAX_def)
  have ts4: "time_steps (target demo_env) 100 0.03125 = Some 192001"
    by (simp add: demo_target step3)
  have no_memory: "propagateFromTle demo_lib demo_env (Some iss_line1) (Some iss_line2)
      100 0.03125 = (Uncaught ''std::bad_alloc'', [])"
    using run_reserve_fails [OF demo_accepts ts4]
    by (simp add: demo_reserve INT_MAX_def)
  have big: "propagateFromTle demo_lib demo_env (Some iss_line1) (Some iss_line2) 36000000 1 =
      (Returned [7000, 0, 0, 0, 7.5, 0, 45, - 90, 621.865], [0])"
    by (simp add: propagateFromTle_def parse_tle_def demo_lib_def demo_env_def iss_line1_def
        iss_line2_def step3 propagation_loop.simps propagate_point_def geodetic_fields_def)
  have ts: "time_steps (target demo_env) double_1_1 double_1_1 = Some 60"
    by (simp add: demo_target step3 double_1_1_def)
  have fits: "(60::int) * 9 \<le> INT_MAX" by (simp add: INT_MAX_def)
  have res: "reserve demo_env (60 * 9)" by (simp add: demo_reserve)
  have ok: "sgp4_ok_at demo_lib double_1_1 (parse_tle demo_lib iss_line1 iss_line2) j"
    if "j < nat 60" for j
  proof -
    from that have "real j \<le> 59" by simp
    then have "real j * double_1_1 \<le> 59 * double_1_1"
      by (intro mult_right_mono) (simp_all add: double_1_1_def)
    also have "\<dots> \<le> 6000" by (simp add: double_1_1_def)
    finally show ?thesis by (simp add: demo_sgp4_ok_at)
  qed
  have rounded: "propagateFromTle demo_lib demo_env (Some iss_line1) (Some iss_line2)
       double_1_1 double_1_1 =
     (Returned (concat (map (point_at demo_lib (180 / pi_c demo_lib) double_1_1
                               (parse_tle demo_lib iss_line1 iss_line2)) [0..<60])),
      elapsed_times double_1_1 60)"
    using run_all_ok [OF demo_accepts ts fits res ok] by (simp add: demo_alloc)
  have exact: "\<lfloor>double_1_1 * 60 / double_1_1\<rfloor> + 1 = 61"
    by (simp add: double_1_1_def)
  have pos: "0 \<le> double_1_1" "0 < double_1_1" by (simp_all add: double_1_1_def)
  from big rounded exact pos ts demo_accepts refused no_memory show ?thesis
    by (simp add: demo_target)
qed

text \<open>
  C2, as amended. The function does not validate the step: for an accepted pair of lines
  and a step \<open>S \<le> 0\<close> the call does not fail with the invalid-input exception.
\<close>

theorem nonpositive_step_not_rejected:
  assumes acc: "error (parse_tle lib s1 s2) = 0"
    and S: "S \<le> 0"
  shows "fst (propagateFromTle lib env (Some s1) (Some s2) D S) \<noteq>
           Thrown (IllegalArgumentException msg)"
  using acc by (rule accepted_not_invalid_input)

theorem nonpositive_step_not_rejected_witness:
  "error (parse_tle demo_lib iss_line1 iss_line2) = 0 \<and> (- 1 :: real) \<le> 0 \<and>
   fst (propagateFromTle demo_lib demo_env (Some iss_line1) (Some iss_line2) 1 (- 1)) \<noteq>
     Thrown (IllegalArgumentException ''Invalid TLE format'')"
proof -
  have S: "(- 1 :: real) \<le> 0" by simp
  from nonpositive_step_not_rejected [OF demo_accepts S] demo_accepts S
  show ?thesis by blast
qed

text \<open>
  C2 as the specification states it fails: with a step of \<open>- 1\<close> minute and a duration of
  one hour the quotient is negative, the step count is clamped to zero and the call returns
  one sample instead of failing.
\<close>

theorem nonpositive_step_counterexample:
  "(- 1 :: real) \<le> 0 \<and>
   propagateFromTle demo_lib demo_env (Some iss_line1) (Some iss_line2) 1 (- 1) =
     (Returned [7000, 0, 0, 0, 7.5, 0, 45, - 90, 621.865], [0])"
  by (simp add: propagateFromTle_def parse_tle_def demo_lib_def demo_env_def iss_line1_def
      iss_line2_def step3 propagation_loop.simps propagate_point_def geodetic_fields_def)

text \<open>
  C3. When the loop is reached with \<open>totalPoints\<close> points (the count is defined and the
  vector has its memory) and \<^verbatim>\<open>sgp4\<close> reports failure at point \<open>i\<close>, the points before it
  having succeeded, the call throws the \<^verbatim>\<open>RuntimeException\<close> whose message ends in the
  decimal numeral of \<open>i\<close>; the outcome is not a sequence, partial or complete. The failing
  call is the last propagation step: the log holds the elapsed times of the points
  \<open>0, \<dots>, i\<close> only. No other index gives the same message.
\<close>

theorem propagation_failure_aborts:
  assumes acc: "error (parse_tle lib s1 s2) = 0"
    and ts: "time_steps (target env) D S = Some totalPoints"
    and fits: "totalPoints * 9 \<le> INT_MAX"
    and res: "reserve env (totalPoints * 9)"
    and i: "i < nat totalPoints"
    and ok: "\<forall>j<i. sgp4_ok_at lib S (parse_tle lib s1 s2) j"
    and fail: "\<not> sgp4_ok_at lib S (parse_tle lib s1 s2) i"
  shows "propagateFromTle lib env (Some s1) (Some s2) D S =
           (Thrown (RuntimeException
                      (''SGP4 propagation failed at step '' @ to_string (int i))),
            elapsed_times S (Suc i)) \<and>
         (\<forall>j. ''SGP4 propagation failed at step '' @ to_string j =
               ''SGP4 propagation failed at step '' @ to_string (int i) \<longrightarrow> j = int i)"
proof -
  have "propagateFromTle lib env (Some s1) (Some s2) D S =
           (Thrown (RuntimeException
                      (''SGP4 propagation failed at step '' @ to_string (int i))),
            elapsed_times S (Suc i))"
    using run_first_failure [OF acc ts fits res i _ fail] ok by simp
  moreover have "\<forall>j. ''SGP4 propagation failed at step '' @ to_string j =
               ''SGP4 propagation failed at step '' @ to_string (int i) \<longrightarrow> j = int i"
    using to_string_inject by simp
  ultimately show ?thesis by blast
qed

theorem propagation_failure_aborts_witness:
  "time_steps (target demo_env) 120 60 = Some 121 \<and>
   reserve demo_env (121 * 9) \<and>
   sgp4_ok_at demo_lib 60 (parse_tle demo_lib iss_line1 iss_line2) 100 \<and>
   \<not> sgp4_ok_at demo_lib 60 (parse_tle demo_lib iss_line1 iss_line2) 101 \<and>
   propagateFromTle demo_lib demo_env (Some iss_line1) (Some iss_line2) 120 60 =
     (Thrown (RuntimeException ''SGP4 propagation failed at step 101''),
      elapsed_times 60 102)"
proof -
  have ts: "time_steps (target demo_env) 120 60 = Some 121"
    by (simp add: demo_target step3)
  have fits: "(121::int) * 9 \<le> INT_MAX" by (simp add: INT_MAX_def)
  have res: "reserve demo_env (121 * 9)" by (simp add: demo_reserve)
  have i: "(101::nat) < nat 121" by simp
  have ok: "\<forall>j<101. sgp4_ok_at demo_lib 60 (parse_tle demo_lib iss_line1 iss_line2) j"
    by (simp add: demo_sgp4_ok_at)
  have fail: "\<not> sgp4_ok_at demo_lib 60 (parse_tle demo_lib iss_line1 iss_line2) 101"
    by (simp add: demo_sgp4_ok_at)
  have str: "to_string (int 101) = ''101''"
    by code_simp
  from propagation_failure_aborts [OF demo_accepts ts fits res i ok fail]
  have "propagateFromTle demo_lib demo_env (Some iss_line1) (Some iss_line2) 120 60 =
     (Thrown (RuntimeException ''SGP4 propagation failed at step 101''),
      elapsed_times 60 102)"
    unfolding str by simp
  moreover have "sgp4_ok_at demo_lib 60 (parse_tle demo_lib iss_line1 iss_line2) 100"
    using ok by simp
  ultimately show ?thesis using ts res fail by blast
qed

text \<open>
  C4. In a call that returns, with a step \<open>S > 0\<close>, sample \<open>i\<close> is what the loop body
  computes at the elapsed time \<open>i * S\<close> minutes: the \<open>i\<close>-th propagation step was made at
  that time and pushed the nine values of sample \<open>i\<close>. The elapsed times increase
  strictly along the sequence.
\<close>

theorem elapsed_time_of_sample:
  assumes S: "0 < S"
    and run: "propagateFromTle lib env (Some s1) (Some s2) D S = (Returned xs, calls)"
  shows "length xs = 9 * length calls \<and>
         (\<forall>i<length calls.
            calls ! i = real i * S \<and>
            propagate_point lib (180 / pi_c lib) (satrec_at lib S (parse_tle lib s1 s2) i)
              (real i * S) =
              Some (satrec_at lib S (parse_tle lib s1 s2) (Suc i), sample xs i)) \<and>
         sorted_wrt (<) calls"
proof -
  note r = returned_samples [OF run]
  have times: "calls ! i = real i * S" if "i < length calls" for i
    using that r(2) nth_elapsed_times [of i "length calls" S] by simp
  have body: "propagate_point lib (180 / pi_c lib) (satrec_at lib S (parse_tle lib s1 s2) i)
              (real i * S) =
              Some (satrec_at lib S (parse_tle lib s1 s2) (Suc i), sample xs i)"
    if "i < length calls" for i
    using that r(3) [of i] r(4) [of i] propagate_point_at_ok [of lib S "parse_tle lib s1 s2" i]
    by simp
  have "sorted_wrt (<) (elapsed_times S (length calls))"
    using S by (rule sorted_elapsed_times)
  with r(2) have "sorted_wrt (<) calls" by simp
  with r(1) times body show ?thesis by blast
qed

theorem elapsed_time_of_sample_witness:
  "(0::real) < 30 \<and>
   propagateFromTle demo_lib demo_env (Some iss_line1) (Some iss_line2) 1 30 =
     (Returned [7000, 0, 0, 0, 7.5, 0, 45, - 90, 621.865,
                7000, 30, 0, 0, 7.5, 0, 45, - 90, 651.865,
                7000, 60, 0, 0, 7.5, 0, 45, - 90, 681.865], [0, 30, 60]) \<and>
   [0, 30, 60] ! 2 = real 2 * 30 \<and> sorted_wrt (<) [0, 30, 60 :: real]"
proof -
  have S: "(0::real) < 30" by simp
  from elapsed_time_of_sample [OF S demo_run_1_30] demo_run_1_30 show ?thesis by simp
qed

text \<open>
  C5. When the parser reports an error for the two lines, the call fails with the
  invalid-input exception (\<^verbatim>\<open>IllegalArgumentException\<close>, "Invalid TLE format") and the
  call log is empty: \<^verbatim>\<open>sgp4\<close> was never called, no sample was computed and there is no
  partial output.
\<close>

theorem rejected_tle_fails_before_propagation:
  assumes "error (parse_tle lib s1 s2) \<noteq> 0"
  shows "propagateFromTle lib env (Some s1) (Some s2) durationHours stepMinutes =
           (Thrown (IllegalArgumentException ''Invalid TLE format''), [])"
  using assms by (simp add: propagateFromTle_def Let_def)

theorem rejected_tle_fails_before_propagation_witness:
  "error (parse_tle demo_lib ''1 25544U'' iss_line2) \<noteq> 0 \<and>
   propagateFromTle demo_lib demo_env (Some ''1 25544U'') (Some iss_line2) 90 10 =
     (Thrown (IllegalArgumentException ''Invalid TLE format''), [])"
proof -
  have rejected: "error (parse_tle demo_lib ''1 25544U'' iss_line2) \<noteq> 0"
    by (simp add: parse_tle_def demo_lib_def)
  from rejected rejected_tle_fails_before_propagation [OF rejected, of demo_env 90 10]
  show ?thesis by simp
qed

text \<open>
  C6. In a call that returns, the flat array holds nine values for each point. Sample \<open>i\<close>
  is, in this order, the position \<open>x, y, z\<close> and the velocity \<open>vx, vy, vz\<close> that \<^verbatim>\<open>sgp4\<close>
  gave for the point, then the latitude and the longitude that \<^verbatim>\<open>ijk2ll\<close> gave for the
  Earth-fixed position, each multiplied by \<open>180 / pi\<close>, then the altitude as it is.
\<close>

theorem sample_layout:
  assumes run: "propagateFromTle lib env (Some s1) (Some s2) D S = (Returned xs, calls)"
    and i: "i < length calls"
    and state: "sgp4 lib wgs84 (satrec_at lib S (parse_tle lib s1 s2) i) (real i * S) =
                  (ok, satrec', (x, y, z), (vx, vy, vz))"
    and geo: "ijk2ll lib (fst (teme2ecef lib (x, y, z) (vx, vy, vz)
                                 (jdsatepoch satrec' + real i * S / 1440))) =
                (lat, lon, alt)"
  shows "length xs = 9 * length calls \<and>
         sample xs i =
           [x, y, z, vx, vy, vz, lat * (180 / pi_c lib), lon * (180 / pi_c lib), alt]"
proof -
  note r = returned_samples [OF run]
  have "sample xs i = point_at lib (180 / pi_c lib) S (parse_tle lib s1 s2) i"
    using r(4) i by simp
  also have "\<dots> = [x, y, z, vx, vy, vz] @
      geodetic_fields lib (180 / pi_c lib) (x, y, z) (vx, vy, vz)
        (jdsatepoch satrec' + real i * S / 1440)"
    using r(3) i state by (intro point_at_layout) simp_all
  also have "\<dots> =
      [x, y, z, vx, vy, vz, lat * (180 / pi_c lib), lon * (180 / pi_c lib), alt]"
    using geo by (simp add: geodetic_fields_eq)
  finally show ?thesis using r(1) by simp
qed

theorem sample_layout_witness:
  "propagateFromTle demo_lib demo_env (Some iss_line1) (Some iss_line2) 1 30 =
     (Returned [7000, 0, 0, 0, 7.5, 0, 45, - 90, 621.865,
                7000, 30, 0, 0, 7.5, 0, 45, - 90, 651.865,
                7000, 60, 0, 0, 7.5, 0, 45, - 90, 681.865], [0, 30, 60]) \<and>
   sgp4 demo_lib wgs84 (satrec_at demo_lib 30 (parse_tle demo_lib iss_line1 iss_line2) 1)
     (real 1 * 30) =
     (True, parse_tle demo_lib iss_line1 iss_line2, (7000, 30, 0), (0, 7.5, 0)) \<and>
   ijk2ll demo_lib (fst (teme2ecef demo_lib (7000, 30, 0) (0, 7.5, 0)
      (jdsatepoch (parse_tle demo_lib iss_line1 iss_line2) + real 1 * 30 / 1440))) =
     (0.785398163397448309615, - 1.57079632679489661923, 651.865) \<and>
   sample [7000, 0, 0, 0, 7.5, 0, 45, - 90, 621.865,
           7000, 30, 0, 0, 7.5, 0, 45, - 90, 651.865,
           7000, 60, 0, 0, 7.5, 0, 45, - 90, 681.865] 1 =
     [7000, 30, 0, 0, 7.5, 0,
      0.785398163397448309615 * (180 / pi_c demo_lib),
      - 1.57079632679489661923 * (180 / pi_c demo_lib), 651.865]"
proof -
  have i: "(1::nat) < length [0, 30, 60 :: real]" by simp
  have state: "sgp4 demo_lib wgs84
      (satrec_at demo_lib 30 (parse_tle demo_lib iss_line1 iss_line2) 1) (real 1 * 30) =
      (True, parse_tle demo_lib iss_line1 iss_line2, (7000, 30, 0), (0, 7.5, 0))"
    by (simp add: demo_satrec_at) (simp add: demo_lib_def)
  have geo: "ijk2ll demo_lib (fst (teme2ecef demo_lib (7000, 30, 0) (0, 7.5, 0)
      (jdsatepoch (parse_tle demo_lib iss_line1 iss_line2) + real 1 * 30 / 1440))) =
     (0.785398163397448309615, - 1.57079632679489661923, 651.865)"
    by (simp add: demo_lib_def parse_tle_def)
  from sample_layout [OF demo_run_1_30 i state geo] demo_run_1_30 state geo
  show ?thesis by blast
qed

text \<open>
  C7, as amended. A failure that the call signals to its caller is a Java exception of
  exactly one of three kinds, told apart by the class of the exception:
  \<^verbatim>\<open>IllegalArgumentException\<close> for invalid input (a line that could not be fetched, or a
  pair of lines that the parser rejects), thrown before any propagation step;
  \<^verbatim>\<open>RuntimeException\<close> for a propagation failure, whose message carries the index of the
  failing point and no other index; \<^verbatim>\<open>OutOfMemoryError\<close> when the result array cannot be
  allocated after all points were computed.
\<close>

theorem failure_kinds:
  assumes run: "propagateFromTle lib env l1 l2 D S = (Thrown e, calls)"
  shows "case e of
           IllegalArgumentException msg \<Rightarrow>
             calls = [] \<and>
             (msg = ''TLE lines cannot be null'' \<and> (l1 = None \<or> l2 = None) \<or>
              msg = ''Invalid TLE format'' \<and>
              (\<exists>s1 s2. l1 = Some s1 \<and> l2 = Some s2 \<and> error (parse_tle lib s1 s2) \<noteq> 0))
         | RuntimeException msg \<Rightarrow>
             (\<exists>s1 s2 i. l1 = Some s1 \<and> l2 = Some s2 \<and> error (parse_tle lib s1 s2) = 0 \<and>
                msg = ''SGP4 propagation failed at step '' @ to_string (int i) \<and>
                (\<forall>j. ''SGP4 propagation failed at step '' @ to_string j = msg \<longrightarrow> j = int i) \<and>
                \<not> sgp4_ok_at lib S (parse_tle lib s1 s2) i \<and>
                calls = elapsed_times S (Suc i))
         | OutOfMemoryError msg \<Rightarrow>
             msg = ''Failed to allocate result array'' \<and>
             \<not> NewDoubleArray env (9 * int (length calls)) \<and>
             (\<exists>s1 s2. l1 = Some s1 \<and> l2 = Some s2 \<and> error (parse_tle lib s1 s2) = 0 \<and>
                (\<forall>k<length calls. sgp4_ok_at lib S (parse_tle lib s1 s2) k))"
proof (cases "l1 = None \<or> l2 = None")
  case True
  with run have "e = IllegalArgumentException ''TLE lines cannot be null''" "calls = []"
    by (auto simp: propagateFromTle_def split: option.splits)
  with True show ?thesis by simp
next
  case False
  then obtain s1 s2 where l: "l1 = Some s1" "l2 = Some s2" by auto
  show ?thesis
  proof (cases "error (parse_tle lib s1 s2) = 0")
    case rejected: False
    from rejected_run [OF rejected, of env D S] run l
    have "e = IllegalArgumentException ''Invalid TLE format''" "calls = []"
      by simp_all
    with l rejected show ?thesis by simp
  next
    case acc: True
    obtain n where ts: "time_steps (target env) D S = Some n"
      using run l acc
      by (cases "time_steps (target env) D S") (auto simp: propagateFromTle_def Let_def)
    have fits: "n * 9 \<le> INT_MAX"
      using run l acc ts by (auto simp: propagateFromTle_def Let_def split: if_splits)
    have res: "reserve env (n * 9)"
      using run l acc ts fits by (auto simp: propagateFromTle_def Let_def split: if_splits)
    from time_steps_Some [OF ts] have n: "1 \<le> n" by simp
    from run_outcomes [OF acc ts fits res] show ?thesis
    proof (elim disjE conjE exE)
      assume ok: "\<forall>j<nat n. sgp4_ok_at lib S (parse_tle lib s1 s2) j"
        and r: "propagateFromTle lib env (Some s1) (Some s2) D S =
          ((if NewDoubleArray env (9 * n)
            then Returned (concat (map (point_at lib (180 / pi_c lib) S (parse_tle lib s1 s2))
                                    [0..<nat n]))
            else Thrown (OutOfMemoryError ''Failed to allocate result array'')),
           elapsed_times S (nat n))"
      from r run l have e: "e = OutOfMemoryError ''Failed to allocate result array''"
        and alloc: "\<not> NewDoubleArray env (9 * n)"
        and calls: "calls = elapsed_times S (nat n)"
        by (auto split: if_splits)
      from calls have len: "length calls = nat n" by (simp add: length_elapsed_times)
      with n have "9 * int (length calls) = 9 * n" by simp
      with e alloc ok len l acc show ?thesis by simp
    next
      fix i
      assume "i < nat n" and "\<forall>j<i. sgp4_ok_at lib S (parse_tle lib s1 s2) j"
        and fail: "\<not> sgp4_ok_at lib S (parse_tle lib s1 s2) i"
        and r: "propagateFromTle lib env (Some s1) (Some s2) D S =
          (Thrown (RuntimeException
                     (''SGP4 propagation failed at step '' @ to_string (int i))),
           elapsed_times S (Suc i))"
      from r run l have
        e: "e = RuntimeException (''SGP4 propagation failed at step '' @ to_string (int i))"
        and calls: "calls = elapsed_times S (Suc i)" by simp_all
      have only: "\<forall>j. ''SGP4 propagation failed at step '' @ to_string j =
          ''SGP4 propagation failed at step '' @ to_string (int i) \<longrightarrow> j = int i"
        using to_string_inject by simp
      from e calls only fail l acc show ?thesis by auto
    qed
  qed
qed

theorem failure_kinds_witness:
  "propagateFromTle demo_lib demo_env None (Some iss_line2) 90 10 =
     (Thrown (IllegalArgumentException ''TLE lines cannot be null''), []) \<and>
   propagateFromTle demo_lib demo_env (Some iss_line1) (Some iss_line2) 120 60 =
     (Thrown (RuntimeException ''SGP4 propagation failed at step 101''),
      elapsed_times 60 102) \<and>
   propagateFromTle demo_lib demo_env (Some iss_line1) (Some iss_line2) 100 0.5 =
     (Thrown (OutOfMemoryError ''Failed to allocate result array''),
      elapsed_times 0.5 12001) \<and>
   \<not> NewDoubleArray demo_env (9 * int (length (elapsed_times 0.5 12001)))"
proof -
  have r1: "propagateFromTle demo_lib demo_env None (Some iss_line2) 90 10 =
      (Thrown (IllegalArgumentException ''TLE lines cannot be null''), [])"
    by (simp add: propagateFromTle_def)
  have ts2: "time_steps (target demo_env) 120 60 = Some 121"
    by (simp add: demo_target step3)
  have str: "to_string (int 101) = ''101''"
    by code_simp
  have r2: "propagateFromTle demo_lib demo_env (Some iss_line1) (Some iss_line2) 120 60 =
      (Thrown (RuntimeException ''SGP4 propagation failed at step 101''),
       elapsed_times 60 102)"
    using run_first_failure [OF demo_accepts ts2, of 101]
    unfolding str by (simp add: demo_sgp4_ok_at demo_reserve INT_MAX_def)
  have ts3: "time_steps (target demo_env) 100 0.5 = Some 12001"
    by (simp add: demo_target step3)
  have r3: "propagateFromTle demo_lib demo_env (Some iss_line1) (Some iss_line2) 100 0.5 =
      (Thrown (OutOfMemoryError ''Failed to allocate result array''),
       elapsed_times 0.5 12001)"
    using run_all_ok [OF demo_accepts ts3]
    by (simp add: demo_sgp4_ok_at demo_alloc demo_reserve INT_MAX_def)
  from failure_kinds [OF r1] failure_kinds [OF r2] failure_kinds [OF r3] r1 r2 r3
  show ?thesis by simp
qed

text \<open>
  C7 as the specification states it, for any failure, fails: when \<^verbatim>\<open>reserve\<close> cannot obtain
  the memory of the vector (here for 192001 points) \<^verbatim>\<open>std::bad_alloc\<close> leaves the function,
  which is none of the three kinds; no propagation step was executed.
\<close>

theorem failure_kinds_counterexample:
  "error (parse_tle demo_lib iss_line1 iss_line2) = 0 \<and>
   time_steps (target demo_env) 100 0.03125 = Some 192001 \<and>
   \<not> reserve demo_env (192001 * 9) \<and>
   propagateFromTle demo_lib demo_env (Some iss_line1) (Some iss_line2) 100 0.03125 =
     (Uncaught ''std::bad_alloc'', [])"
proof -
  have ts: "time_steps (target demo_env) 100 0.03125 = Some 192001"
    by (simp add: demo_target step3)
  have fits: "(192001::int) * 9 \<le> INT_MAX" by (simp add: INT_MAX_def)
  have res: "\<not> reserve demo_env (192001 * 9)" by (simp add: demo_reserve)
  from run_reserve_fails [OF demo_accepts ts fits res] demo_accepts ts res
  show ?thesis by blast
qed



text \<open>
  C10. In a call that returns, the last three values of sample \<open>i\<close> are the geodetic
  values computed with the Julian date \<open>satrec.jdsatepoch + (i * S) / 1440\<close>, the record
  being read after the call of \<^verbatim>\<open>sgp4\<close> for that point. When \<^verbatim>\<open>sgp4\<close> leaves the field
  \<^verbatim>\<open>jdsatepoch\<close> alone, this is the epoch of the parsed lines plus the elapsed time of the
  sample in days.
\<close>

theorem frame_conversion_julian_date:
  assumes run: "propagateFromTle lib env (Some s1) (Some s2) D S = (Returned xs, calls)"
    and i: "i < length calls"
    and state: "snd (snd (sgp4 lib wgs84 (satrec_at lib S (parse_tle lib s1 s2) i)
                            (real i * S))) = (r, v)"
  shows "drop 6 (sample xs i) =
           geodetic_fields lib (180 / pi_c lib) r v
             (jdsatepoch (satrec_at lib S (parse_tle lib s1 s2) (Suc i)) + real i * S / 1440) \<and>
         ((\<forall>whichconst satrec tsince.
              jdsatepoch (fst (snd (sgp4 lib whichconst satrec tsince))) = jdsatepoch satrec) \<longrightarrow>
          drop 6 (sample xs i) =
            geodetic_fields lib (180 / pi_c lib) r v
              (jdsatepoch (parse_tle lib s1 s2) + real i * S / 1440))"
proof -
  let ?rec = "parse_tle lib s1 s2"
  note ret = returned_samples [OF run]
  obtain x y z vx vy vz where rv: "r = (x, y, z)" "v = (vx, vy, vz)"
    by (cases r, cases v) auto
  obtain ok' where full: "sgp4 lib wgs84 (satrec_at lib S ?rec i) (real i * S) =
      (ok', satrec_at lib S ?rec (Suc i), (x, y, z), (vx, vy, vz))"
    using state rv by (cases "sgp4 lib wgs84 (satrec_at lib S ?rec i) (real i * S)") auto
  have "sample xs i = [x, y, z, vx, vy, vz] @
      geodetic_fields lib (180 / pi_c lib) (x, y, z) (vx, vy, vz)
        (jdsatepoch (satrec_at lib S ?rec (Suc i)) + real i * S / 1440)"
    using ret(4) [OF i] point_at_layout [OF ret(3) [OF i] full] by simp
  then have a: "drop 6 (sample xs i) =
      geodetic_fields lib (180 / pi_c lib) r v
        (jdsatepoch (satrec_at lib S ?rec (Suc i)) + real i * S / 1440)"
    using rv by simp
  have b: "drop 6 (sample xs i) =
      geodetic_fields lib (180 / pi_c lib) r v (jdsatepoch ?rec + real i * S / 1440)"
    if "\<forall>whichconst satrec tsince.
          jdsatepoch (fst (snd (sgp4 lib whichconst satrec tsince))) = jdsatepoch satrec"
    using a jdsatepoch_satrec_at [OF that, of S ?rec "Suc i"] by simp
  from a b show ?thesis by blast
qed

theorem frame_conversion_julian_date_witness:
  "propagateFromTle demo_lib demo_env (Some iss_line1) (Some iss_line2) 1 30 =
     (Returned [7000, 0, 0, 0, 7.5, 0, 45, - 90, 621.865,
                7000, 30, 0, 0, 7.5, 0, 45, - 90, 651.865,
                7000, 60, 0, 0, 7.5, 0, 45, - 90, 681.865], [0, 30, 60]) \<and>
   (\<forall>whichconst satrec tsince.
      jdsatepoch (fst (snd (sgp4 demo_lib whichconst satrec tsince))) = jdsatepoch satrec) \<and>
   jdsatepoch (parse_tle demo_lib iss_line1 iss_line2) + real 2 * 30 / 1440 =
     2459000.5 + 60 / 1440 \<and>
   drop 6 (sample [7000, 0, 0, 0, 7.5, 0, 45, - 90, 621.865,
                   7000, 30, 0, 0, 7.5, 0, 45, - 90, 651.865,
                   7000, 60, 0, 0, 7.5, 0, 45, - 90, 681.865] 2) =
     geodetic_fields demo_lib (180 / pi_c demo_lib) (7000, 60, 0) (0, 7.5, 0)
       (jdsatepoch (parse_tle demo_lib iss_line1 iss_line2) + real 2 * 30 / 1440)"
proof -
  have i: "(2::nat) < length [0, 30, 60 :: real]" by simp
  have state: "snd (snd (sgp4 demo_lib wgs84
      (satrec_at demo_lib 30 (parse_tle demo_lib iss_line1 iss_line2) 2) (real 2 * 30))) =
      ((7000, 60, 0), (0, 7.5, 0))"
    by (simp add: demo_lib_def)
  have epoch: "\<forall>whichconst satrec tsince.
      jdsatepoch (fst (snd (sgp4 demo_lib whichconst satrec tsince))) = jdsatepoch satrec"
    by (simp add: demo_lib_def)
  have jd: "jdsatepoch (parse_tle demo_lib iss_line1 iss_line2) + real 2 * 30 / 1440 =
     2459000.5 + 60 / 1440"
    by (simp add: parse_tle_def demo_lib_def)
  from frame_conversion_julian_date [OF demo_run_1_30 i state] epoch
  have "drop 6 (sample [7000, 0, 0, 0, 7.5, 0, 45, - 90, 621.865,
                   7000, 30, 0, 0, 7.5, 0, 45, - 90, 651.865,
                   7000, 60, 0, 0, 7.5, 0, 45, - 90, 681.865] 2) =
     geodetic_fields demo_lib (180 / pi_c demo_lib) (7000, 60, 0) (0, 7.5, 0)
       (jdsatepoch (parse_tle demo_lib iss_line1 iss_line2) + real 2 * 30 / 1440)"
    by blast
  with demo_run_1_30 epoch jd show ?thesis by blast
qed

end
